theory Spec2Isabelle
  imports Complex_Main "HOL-Library.Multiset" "HOL-Library.Stream" "HOL-Library.Log_Nat"
begin

section \<open>Data model (types.ts)\<close>

text \<open>
  A \<open>Song\<close> as declared in \<open>types.ts\<close>. The field \<open>id\<close> is written \<open>song_id\<close>, \<open>file\<close> is
  \<open>song_file\<close> and the song's \<open>duration\<close> is \<open>song_duration\<close> (the player state has a
  \<open>duration\<close> of its own). The \<open>File\<close> blob is an opaque handle. JavaScript numbers that hold
  whole numbers (play counts, timestamps) are modelled by \<open>int\<close>, with the rounding of
  their arithmetic written out below; times in seconds and random draws are modelled by
  \<open>real\<close>.
\<close>

record song =
  song_id :: string
  song_file :: string
  fileName :: string
  title :: string
  artist :: string
  album :: string
  song_duration :: real
  playCount :: int
  dateAdded :: int

record playlist =
  playlist_id :: nat
  playlist_name :: string
  songIds :: "string list"
  dateCreated :: int

datatype ShuffleMode = ShuffleNone | ShuffleRandom | ShuffleWeighted

datatype RepeatMode = RepeatNone | RepeatOne | RepeatAll

section \<open>JavaScript numbers\<close>

text \<open>
  A JavaScript number is an IEEE double, with 53 significant bits. The sum or difference of
  two whole numbers is the exact result rounded to the nearest double, ties to the even
  significand: exact up to \<open>2^53\<close> in magnitude, and beyond that a multiple of the spacing
  of the doubles there (so \<open>2^53 + 1\<close> gives \<open>2^53\<close>). Overflow to \<open>Infinity\<close>, past
  \<open>2^1024\<close>, is not modelled.
\<close>

definition round_double :: "int \<Rightarrow> int" where
  "round_double x =
     (let m = \<bar>x\<bar>;
          u = 2 ^ nat (bitlen m - 53);
          q = m div u;
          rest = m mod u;
          q1 = (if 2 * rest < u then q
                else if 2 * rest > u then q + 1
                else if even q then q else q + 1)
      in sgn x * (q1 * u))"

definition js_add :: "int \<Rightarrow> int \<Rightarrow> int" where
  "js_add a b = round_double (a + b)"

definition js_sub :: "int \<Rightarrow> int \<Rightarrow> int" where
  "js_sub a b = round_double (a - b)"

section \<open>Library store (services/db.ts)\<close>

text \<open>
  The object store \<open>songs\<close> is created with \<open>keyPath: 'id'\<close>: a keyed collection, one
  record per key, the key of a record read from its \<open>id\<close> field. The model starts from an
  opened database. Every request of a transaction is logged, so that the scope of a
  transaction (from \<open>db.transaction\<close> to \<open>tx.done\<close>) can be read off the log.
\<close>

datatype db_event = TxBegin | TxGet string | TxPut string | TxDone

record idb =
  songs_store :: "string \<rightharpoonup> song"
  db_events :: "db_event list"

definition transaction :: "idb \<Rightarrow> idb" where
  "transaction db = db\<lparr>db_events := db_events db @ [TxBegin]\<rparr>"

definition tx_get :: "string \<Rightarrow> idb \<Rightarrow> song option \<times> idb" where
  "tx_get k tx = (songs_store tx k, tx\<lparr>db_events := db_events tx @ [TxGet k]\<rparr>)"

text \<open>\<open>put\<close> with an in-line key: the record replaces whatever is stored under its own id.\<close>

definition tx_put :: "song \<Rightarrow> idb \<Rightarrow> idb" where
  "tx_put s tx = tx\<lparr>songs_store := (songs_store tx)(song_id s \<mapsto> s),
                     db_events := db_events tx @ [TxPut (song_id s)]\<rparr>"

definition tx_done :: "idb \<Rightarrow> idb" where
  "tx_done tx = tx\<lparr>db_events := db_events tx @ [TxDone]\<rparr>"

definition getSongById :: "string \<Rightarrow> idb \<Rightarrow> song option" where
  "getSongById k db = songs_store db k"

text \<open>
  \<open>addSongs\<close>: one read-write transaction; \<open>songs.map(song => tx.store.put(song))\<close> places
  the put requests in the order of the batch, and they run in that order.
\<close>

definition addSongs :: "song list \<Rightarrow> idb \<Rightarrow> idb" where
  "addSongs songs db = tx_done (foldl (\<lambda>tx s. tx_put s tx) (transaction db) songs)"

text \<open>
  \<open>incrementPlayCount\<close>: one read-write transaction holding the \<open>get\<close>, the guard
  \<open>if (song)\<close> and, for a record that exists, \<open>song.playCount += 1\<close> and the \<open>put\<close>.
\<close>

definition incrementPlayCount :: "string \<Rightarrow> idb \<Rightarrow> idb" where
  "incrementPlayCount songId db =
     (let tx = transaction db;
          (song, tx1) = tx_get songId tx;
          tx2 = (case song of
                   Some s \<Rightarrow> tx_put (s\<lparr>playCount := js_add (playCount s) 1\<rparr>) tx1
                 | None \<Rightarrow> tx1)
      in tx_done tx2)"

text \<open>The invariant that \<open>keyPath: 'id'\<close> gives the store: a record is stored under its id.\<close>

definition keyed :: "idb \<Rightarrow> bool" where
  "keyed db = (\<forall>k r. songs_store db k = Some r \<longrightarrow> song_id r = k)"

section \<open>Environment of the player: random numbers, clock, sorting\<close>

text \<open>
  \<open>Math.random()\<close> is modelled by a stream of the values it returns, each call taking the
  next one; its contract is \<open>0 \<le> r < 1\<close>. \<open>Date.now()\<close> is a parameter of the step that
  reads it (milliseconds, a natural number).
\<close>

type_synonym rng = "real stream"

definition random :: "rng \<Rightarrow> real \<times> rng" where
  "random r = (shd r, stl r)"


text \<open>
  \<open>Array.prototype.sort\<close> belongs to the JavaScript engine, and with a comparator that is
  not consistent its result is implementation-defined; it is a parameter of the model: given
  the comparator (which draws random numbers), the array and the random source, it returns
  the sorted array and the random source left over.
\<close>

type_synonym comparator = "song \<Rightarrow> song \<Rightarrow> rng \<Rightarrow> real \<times> rng"

type_synonym sort_impl = "comparator \<Rightarrow> song list \<Rightarrow> rng \<Rightarrow> song list \<times> rng"

text \<open>
  One possible engine, a stable insertion sort, for statements that have to name an engine.
\<close>

fun insertBy :: "comparator \<Rightarrow> song \<Rightarrow> song list \<Rightarrow> rng \<Rightarrow> song list \<times> rng" where
  "insertBy cmp x [] r = ([x], r)"
| "insertBy cmp x (y # ys) r =
     (let (c, r1) = cmp x y r
      in if c < 0 then (x # y # ys, r1)
         else (let (zs, r2) = insertBy cmp x ys r1 in (y # zs, r2)))"

fun insertionSortBy :: sort_impl where
  "insertionSortBy cmp [] r = ([], r)"
| "insertionSortBy cmp (x # xs) r =
     (let (ys, r1) = insertionSortBy cmp xs r in insertBy cmp x ys r1)"






text \<open>Decimal digits of a natural number, as template literals print \<open>Date.now()\<close>.\<close>

fun string_of_nat :: "nat \<Rightarrow> string" where
  "string_of_nat n =
     (if n < 10 then [''0123456789'' ! n]
      else string_of_nat (n div 10) @ [''0123456789'' ! (n mod 10)])"

declare string_of_nat.simps [simp del]

section \<open>Queue builder (App.tsx, getShuffledQueue)\<close>

text \<open>
  The swap \<open>[queue[i], queue[j]] = [queue[j], queue[i]]\<close>: both reads come first. Under the
  contract of \<open>Math.random\<close> both indices are inside the array.
\<close>

definition swap :: "nat \<Rightarrow> nat \<Rightarrow> 'a list \<Rightarrow> 'a list" where
  "swap i j queue = (let qi = queue ! i; qj = queue ! j in (queue[i := qj])[j := qi])"

text \<open>
  The loop \<open>for (let i = queue.length - 1; i > 0; i--)\<close>, with
  \<open>j = Math.floor(Math.random() * (i + 1))\<close>. The first argument is the loop variable.
  (The product is taken in the reals; the product of doubles is rounded before the floor,
  which on rare draws gives the next index, still at most \<open>i\<close>.)
\<close>

fun fisherYates :: "nat \<Rightarrow> 'a list \<Rightarrow> rng \<Rightarrow> 'a list \<times> rng" where
  "fisherYates 0 queue r = (queue, r)"
| "fisherYates (Suc i) queue r =
     (let (x, r1) = random r;
          j = nat \<lfloor>x * real (Suc i + 1)\<rfloor>
      in fisherYates i (swap (Suc i) j queue) r1)"

text \<open>\<open>(totalPlayCount - a.playCount) || 1\<close>: the difference, or 1 where it is 0.\<close>

definition weight :: "int \<Rightarrow> song \<Rightarrow> int" where
  "weight totalPlayCount a =
     (let d = js_sub totalPlayCount (playCount a) in if d = 0 then 1 else d)"

text \<open>
  The comparator of the weighted mode,
  \<open>(Math.random() * weightB) - (Math.random() * weightA)\<close>: two calls of \<open>Math.random\<close> at
  every comparison, the first scaled by the weight of \<open>b\<close>. (The two products and their
  difference are taken in the reals.)
\<close>

definition compareWeighted :: "int \<Rightarrow> comparator" where
  "compareWeighted totalPlayCount a b r =
     (let weightA = weight totalPlayCount a;
          weightB = weight totalPlayCount b;
          (r1, rs1) = random r;
          (r2, rs2) = random rs1
      in (r1 * real_of_int weightB - r2 * real_of_int weightA, rs2))"

definition totalPlayCount :: "song list \<Rightarrow> int" where
  "totalPlayCount queue = foldl (\<lambda>sum s. js_add sum (playCount s)) 0 queue"

text \<open>
  \<open>getShuffledQueue\<close> works on a copy of its argument. The shuffle mode is the one the
  function closes over (\<open>useCallback(..., [shuffleMode])\<close>): an argument here.
\<close>

definition getShuffledQueue :: "sort_impl \<Rightarrow> ShuffleMode \<Rightarrow> song list \<Rightarrow> rng \<Rightarrow> song list \<times> rng" where
  "getShuffledQueue srt mode sourceQueue r =
     (let queue = sourceQueue
      in case mode of
           ShuffleRandom \<Rightarrow> fisherYates (length queue - 1) queue r
         | ShuffleWeighted \<Rightarrow> srt (compareWeighted (totalPlayCount queue)) queue r
         | ShuffleNone \<Rightarrow> (queue, r))"

section \<open>Player state and handlers (App.tsx)\<close>

text \<open>
  The audio element behind \<open>audioRef\<close>: the two properties the handlers read and write.
  What the element itself does with a value assigned to \<open>currentTime\<close> is not part of the
  repository; the model keeps the value assigned.
\<close>

record audio_el =
  audio_currentTime :: real
  audio_paused :: bool

datatype active_view = LibraryView | PlaylistView "nat option"

text \<open>
  The state of the \<open>App\<close> component that the handlers below use, the set behind
  \<open>playCountTrackedRef\<close>, the database the component talks to and the random source.
  \<open>currentSongIndex\<close> is \<open>-1\<close> when no song is current.
\<close>

record app_state =
  songs :: "song list"
  playlists :: "playlist list"
  activeView :: active_view
  currentSongIndex :: int
  playQueue :: "song list"
  isPlaying :: bool
  currentTime :: real
  duration :: real
  shuffleMode :: ShuffleMode
  repeatMode :: RepeatMode
  audioRef :: "audio_el option"
  playCountTracked :: "string set"
  database :: idb
  random_source :: rng

datatype js_error = TypeError | UndefinedQueueEntry

definition PLAY_COUNT_THRESHOLD_S :: real where
  "PLAY_COUNT_THRESHOLD_S = 5"

text \<open>\<open>playQueue[currentSongIndex]\<close>: \<open>undefined\<close> outside the array.\<close>

definition queue_at :: "'a list \<Rightarrow> int \<Rightarrow> 'a option" where
  "queue_at queue i = (if 0 \<le> i \<and> i < int (length queue) then Some (queue ! nat i) else None)"

text \<open>\<open>findIndex\<close>: the index of the first element that satisfies the test, or \<open>-1\<close>.\<close>

fun findIndexFrom :: "nat \<Rightarrow> ('a \<Rightarrow> bool) \<Rightarrow> 'a list \<Rightarrow> int" where
  "findIndexFrom k P [] = -1"
| "findIndexFrom k P (x # xs) = (if P x then int k else findIndexFrom (Suc k) P xs)"

definition findIndex :: "('a \<Rightarrow> bool) \<Rightarrow> 'a list \<Rightarrow> int" where
  "findIndex P xs = findIndexFrom 0 P xs"

text \<open>
  \<open>list.findIndex(s => s.id === currentSong.id)\<close> where an entry of the list or
  \<open>currentSong\<close> may be \<open>undefined\<close>: reading \<open>.id\<close> of \<open>undefined\<close> throws a
  \<open>TypeError\<close>, at the first entry the search reaches.
\<close>

fun findIndexOfCurrent :: "nat \<Rightarrow> song option \<Rightarrow> song option list \<Rightarrow> js_error + int" where
  "findIndexOfCurrent k currentSong [] = Inr (-1)"
| "findIndexOfCurrent k currentSong (x # xs) =
     (case x of
        None \<Rightarrow> Inl TypeError
      | Some s \<Rightarrow>
          (case currentSong of
             None \<Rightarrow> Inl TypeError
           | Some c \<Rightarrow> if song_id s = song_id c then Inr (int k)
                       else findIndexOfCurrent (Suc k) currentSong xs))"

subsection \<open>The play-count effect\<close>

text \<open>The template literal \<open>`${currentSong.id}-${Date.now()}`\<close>.\<close>

definition playbackIdAt :: "song \<Rightarrow> nat \<Rightarrow> string" where
  "playbackIdAt currentSong now = song_id currentSong @ ''-'' @ string_of_nat now"

text \<open>
  The effect with dependencies \<open>[currentTime, isPlaying, currentSongIndex, playQueue]\<close>;
  \<open>now\<close> is what \<open>Date.now()\<close> returns in this run. The call
  \<open>incrementPlayCount(currentSong.id)\<close> is applied to the database at once, and its
  \<open>then\<close> callback raises the play count of the song in \<open>songs\<close>.
\<close>

definition playCountEffect :: "nat \<Rightarrow> app_state \<Rightarrow> app_state" where
  "playCountEffect now st =
     (case queue_at (playQueue st) (currentSongIndex st) of
        None \<Rightarrow> st
      | Some currentSong \<Rightarrow>
          (let songPlaybackId = playbackIdAt currentSong now;
               st1 = (if isPlaying st \<and> currentTime st \<ge> PLAY_COUNT_THRESHOLD_S
                         \<and> songPlaybackId \<notin> playCountTracked st
                      then st\<lparr>playCountTracked := insert songPlaybackId (playCountTracked st),
                              database := incrementPlayCount (song_id currentSong) (database st),
                              songs := map (\<lambda>s. if song_id s = song_id currentSong
                                                    then s\<lparr>playCount := js_add (playCount s) 1\<rparr>
                                                    else s)
                                           (songs st)\<rparr>
                      else st)
           in if \<not> isPlaying st1 \<and> currentSongIndex st1 \<noteq> -1
              then st1\<lparr>playCountTracked := {}\<rparr>
              else st1))"

text \<open>
  After a render React runs the effect when one of its dependencies has changed. (The
  queue is compared as a list; in the steps below that go through this function a queue
  that is replaced differs from the one before.)
\<close>

definition runPlayCountEffect :: "nat \<Rightarrow> app_state \<Rightarrow> app_state \<Rightarrow> app_state" where
  "runPlayCountEffect now old new =
     (if currentTime new = currentTime old \<and> isPlaying new = isPlaying old
         \<and> currentSongIndex new = currentSongIndex old \<and> playQueue new = playQueue old
      then new
      else playCountEffect now new)"

text \<open>
  The \<open>timeupdate\<close> event: the element reports position \<open>t\<close>, the listener does
  \<open>setCurrentTime(audio.currentTime)\<close>, and the effect runs after the render.
\<close>

definition timeupdate :: "real \<Rightarrow> nat \<Rightarrow> app_state \<Rightarrow> app_state" where
  "timeupdate t now st =
     (case audioRef st of
        None \<Rightarrow> st
      | Some a \<Rightarrow>
          (let st1 = st\<lparr>audioRef := Some (a\<lparr>audio_currentTime := t\<rparr>)\<rparr>
           in runPlayCountEffect now st (st1\<lparr>currentTime := t\<rparr>)))"

subsection \<open>Handlers\<close>

definition playSong :: "sort_impl \<Rightarrow> song \<Rightarrow> song list \<Rightarrow> app_state \<Rightarrow> app_state" where
  "playSong srt song songList st =
     (let index = findIndex (\<lambda>s. song_id s = song_id song) songList
      in if index > -1
         then (let st1 =
                     (if shuffleMode st \<noteq> ShuffleNone
                      then (let (shuffledQueue, r1) =
                                  getShuffledQueue srt (shuffleMode st) songList (random_source st);
                                newIndex = findIndex (\<lambda>s. song_id s = song_id song) shuffledQueue
                            in st\<lparr>playQueue := shuffledQueue, currentSongIndex := newIndex,
                                  random_source := r1\<rparr>)
                      else st\<lparr>playQueue := songList, currentSongIndex := index\<rparr>)
               in st1\<lparr>isPlaying := True\<rparr>)
         else st)"

definition playNextSong :: "app_state \<Rightarrow> app_state" where
  "playNextSong st =
     (if length (playQueue st) = 0 then st
      else if repeatMode st = RepeatOne
      then (case audioRef st of
              Some a \<Rightarrow> st\<lparr>audioRef := Some (a\<lparr>audio_currentTime := 0, audio_paused := False\<rparr>)\<rparr>
            | None \<Rightarrow> st)
      else (let nextIndex = currentSongIndex st + 1
            in if nextIndex \<ge> int (length (playQueue st))
               then (if repeatMode st = RepeatAll
                     then st\<lparr>currentSongIndex := 0\<rparr>
                     else st\<lparr>isPlaying := False\<rparr>)
               else st\<lparr>currentSongIndex := nextIndex\<rparr>))"

text \<open>The second half of \<open>playPrevSong\<close>, after the test of the position.\<close>

definition playPrevIndex :: "app_state \<Rightarrow> app_state" where
  "playPrevIndex st =
     (let prevIndex = currentSongIndex st - 1
      in if prevIndex < 0
         then (if repeatMode st = RepeatAll
               then st\<lparr>currentSongIndex := int (length (playQueue st)) - 1\<rparr>
               else st)
         else st\<lparr>currentSongIndex := prevIndex\<rparr>)"

definition playPrevSong :: "app_state \<Rightarrow> app_state" where
  "playPrevSong st =
     (if length (playQueue st) = 0 then st
      else case audioRef st of
             Some a \<Rightarrow>
               if audio_currentTime a > 3
               then st\<lparr>audioRef := Some (a\<lparr>audio_currentTime := 0\<rparr>)\<rparr>
               else playPrevIndex st
           | None \<Rightarrow> playPrevIndex st)"

definition handlePlayPause :: "sort_impl \<Rightarrow> app_state \<Rightarrow> app_state" where
  "handlePlayPause srt st =
     (if length (playQueue st) > 0 then st\<lparr>isPlaying := \<not> isPlaying st\<rparr>
      else if length (songs st) > 0 then playSong srt (songs st ! 0) (songs st) st
      else st)"

text \<open>
  The effect with dependency \<open>[isPlaying]\<close>: \<open>audio.play()\<close> when playing, \<open>audio.pause()\<close>
  otherwise.
\<close>

definition playPauseEffect :: "app_state \<Rightarrow> app_state" where
  "playPauseEffect st =
     (case audioRef st of
        Some a \<Rightarrow> st\<lparr>audioRef := Some (a\<lparr>audio_paused := \<not> isPlaying st\<rparr>)\<rparr>
      | None \<Rightarrow> st)"

text \<open>
  A click on play/pause, the render, and the two effects above in the order of the source.
  (The effect that assigns \<open>audio.src\<close> is not modelled: the source of the element is not
  part of the state here.)
\<close>

definition clickPlayPause :: "sort_impl \<Rightarrow> nat \<Rightarrow> app_state \<Rightarrow> app_state" where
  "clickPlayPause srt now st =
     (let st1 = handlePlayPause srt st;
          st2 = (if isPlaying st1 = isPlaying st then st1 else playPauseEffect st1)
      in runPlayCountEffect now st st2)"

definition handleSeek :: "real \<Rightarrow> app_state \<Rightarrow> app_state" where
  "handleSeek time st =
     (case audioRef st of
        Some a \<Rightarrow> st\<lparr>audioRef := Some (a\<lparr>audio_currentTime := time\<rparr>), currentTime := time\<rparr>
      | None \<Rightarrow> st)"

text \<open>The cycle \<open>modes[(modes.indexOf(shuffleMode) + 1) % modes.length]\<close>.\<close>

fun nextShuffleMode :: "ShuffleMode \<Rightarrow> ShuffleMode" where
  "nextShuffleMode ShuffleNone = ShuffleRandom"
| "nextShuffleMode ShuffleRandom = ShuffleWeighted"
| "nextShuffleMode ShuffleWeighted = ShuffleNone"

text \<open>
  The list of the active view as \<open>toggleShuffle\<close> computes it: \<open>songs\<close> for the library;
  for a playlist its ids, each looked up with \<open>songs.find(...)!\<close>, so an id without a song
  gives an \<open>undefined\<close> entry; the empty list when the playlist is not found.
\<close>

definition originalList :: "app_state \<Rightarrow> song option list" where
  "originalList st =
     (case activeView st of
        LibraryView \<Rightarrow> map Some (songs st)
      | PlaylistView pid \<Rightarrow>
          (case find (\<lambda>p. Some (playlist_id p) = pid) (playlists st) of
             Some p \<Rightarrow> map (\<lambda>i. find (\<lambda>s. song_id s = i) (songs st)) (songIds p)
           | None \<Rightarrow> []))"

text \<open>
  \<open>toggleShuffle\<close>. \<open>setShuffleMode(newMode)\<close> takes effect at the next render, and
  \<open>getShuffledQueue\<close> is the callback of the current render: it shuffles under the mode
  \<open>shuffleMode\<close> had before the toggle. A \<open>TypeError\<close> ends the handler: the result is the
  error together with the state React renders next, in which the mode update queued
  before the error has taken effect. Where the new queue would hold an \<open>undefined\<close> entry
  (which the type \<open>Song[]\<close> of the queue excludes) the model stops with
  \<open>UndefinedQueueEntry\<close> in the same way; the program itself goes on with that queue.
\<close>

definition toggleShuffle :: "sort_impl \<Rightarrow> app_state \<Rightarrow> (js_error \<times> app_state) + app_state" where
  "toggleShuffle srt st =
     (let newMode = nextShuffleMode (shuffleMode st);
          st1 = st\<lparr>shuffleMode := newMode\<rparr>
      in if newMode \<noteq> ShuffleNone \<and> length (playQueue st) > 0
         then (let currentSong = queue_at (playQueue st) (currentSongIndex st);
                   (newQueue, r1) =
                      getShuffledQueue srt (shuffleMode st) (playQueue st) (random_source st)
               in case findIndexOfCurrent 0 currentSong (map Some newQueue) of
                    Inl e \<Rightarrow> Inl (e, st1)
                  | Inr newIndex \<Rightarrow>
                      Inr (st1\<lparr>playQueue := newQueue, currentSongIndex := newIndex,
                               random_source := r1\<rparr>))
         else if newMode = ShuffleNone \<and> length (playQueue st) > 0
         then (let currentSong = queue_at (playQueue st) (currentSongIndex st)
               in case findIndexOfCurrent 0 currentSong (originalList st) of
                    Inl e \<Rightarrow> Inl (e, st1)
                  | Inr newIndex \<Rightarrow>
                      if list_all (\<lambda>x. x \<noteq> None) (originalList st)
                      then Inr (st1\<lparr>playQueue := map the (originalList st),
                                    currentSongIndex := newIndex\<rparr>)
                      else Inl (UndefinedQueueEntry, st1))
         else Inr st1)"

text \<open>
  A loaded state: a queue that is not empty, a cursor inside it, and the audio element
  mounted (\<open>audioRef.current\<close> is set once the component has rendered).
\<close>

definition loaded :: "app_state \<Rightarrow> bool" where
  "loaded st = (playQueue st \<noteq> [] \<and> 0 \<le> currentSongIndex st
                \<and> currentSongIndex st < int (length (playQueue st)) \<and> audioRef st \<noteq> None)"

subsection \<open>Sample data\<close>

definition songA :: song where
  "songA = \<lparr>song_id = ''a.mp3-1'', song_file = ''blob-a'', fileName = ''a.mp3'', title = ''A'',
            artist = ''Unknown Artist'', album = ''Unknown Album'', song_duration = 180,
            playCount = 1, dateAdded = 1000\<rparr>"

definition songB :: song where
  "songB = \<lparr>song_id = ''b.mp3-2'', song_file = ''blob-b'', fileName = ''b.mp3'', title = ''B'',
            artist = ''Unknown Artist'', album = ''Unknown Album'', song_duration = 200,
            playCount = 1, dateAdded = 2000\<rparr>"

definition songC :: song where
  "songC = \<lparr>song_id = ''c.mp3-3'', song_file = ''blob-c'', fileName = ''c.mp3'', title = ''C'',
            artist = ''Unknown Artist'', album = ''Unknown Album'', song_duration = 220,
            playCount = 4, dateAdded = 3000\<rparr>"

definition db0 :: idb where
  "db0 = \<lparr>songs_store = Map.empty(''a.mp3-1'' \<mapsto> songA), db_events = []\<rparr>"

text \<open>The database with \<open>A\<close> stored at a play count of \<open>2^53\<close>.\<close>

definition db_big :: idb where
  "db_big = \<lparr>songs_store = Map.empty(''a.mp3-1'' \<mapsto> songA\<lparr>playCount := 2 ^ 53\<rparr>),
             db_events = []\<rparr>"

definition halves :: rng where
  "halves = sconst (1 / 2)"






text \<open>Queue \<open>[A, B, C]\<close>, cursor on \<open>C\<close>, playing, no shuffle, no repeat.\<close>

definition st0 :: app_state where
  "st0 = \<lparr>songs = [songA, songB, songC], playlists = [], activeView = LibraryView,
          currentSongIndex = 2, playQueue = [songA, songB, songC], isPlaying = True,
          currentTime = 0, duration = 220, shuffleMode = ShuffleNone, repeatMode = RepeatNone,
          audioRef = Some \<lparr>audio_currentTime = 0, audio_paused = False\<rparr>,
          playCountTracked = {}, database = db0, random_source = halves\<rparr>"

text \<open>Only \<open>A\<close> in the library and in the queue, playing from the start.\<close>

definition stA :: app_state where
  "stA = \<lparr>songs = [songA], playlists = [], activeView = LibraryView,
          currentSongIndex = 0, playQueue = [songA], isPlaying = True,
          currentTime = 0, duration = 180, shuffleMode = ShuffleNone, repeatMode = RepeatNone,
          audioRef = Some \<lparr>audio_currentTime = 0, audio_paused = False\<rparr>,
          playCountTracked = {}, database = db0, random_source = halves\<rparr>"

text \<open>Cursor on \<open>B\<close> at 5 s and at 1 s of the track; cursor on \<open>A\<close> at 1 s.\<close>

definition st_b5 :: app_state where
  "st_b5 = st0\<lparr>currentSongIndex := 1,
               audioRef := Some \<lparr>audio_currentTime = 5, audio_paused = False\<rparr>\<rparr>"

definition st_b1 :: app_state where
  "st_b1 = st0\<lparr>currentSongIndex := 1,
               audioRef := Some \<lparr>audio_currentTime = 1, audio_paused = False\<rparr>\<rparr>"

definition st_a1 :: app_state where
  "st_a1 = st0\<lparr>currentSongIndex := 0,
               audioRef := Some \<lparr>audio_currentTime = 1, audio_paused = False\<rparr>\<rparr>"

text \<open>
  A run from \<open>stA\<close>: the position reaches 5 s; the user pauses; the element reports
  position 0 (the track is back at its start); the user resumes; the position reaches 5 s
  again. The pointer never changes.
\<close>

definition session1 :: app_state where
  "session1 = timeupdate 5 1000 stA"

definition session2 :: app_state where
  "session2 = clickPlayPause insertionSortBy 2000 session1"

definition session3 :: app_state where
  "session3 = timeupdate 0 2010 session2"

definition session4 :: app_state where
  "session4 = clickPlayPause insertionSortBy 3000 session3"

definition session5 :: app_state where
  "session5 = timeupdate 5 8000 session4"

text \<open>
  A run from \<open>stA\<close> with no pause: the position reaches 5 s (at time 1000 of the clock),
  and a quarter of a second later the element reports 5.25 s (at time 1250).
\<close>

definition unpaused2 :: app_state where
  "unpaused2 = timeupdate (21 / 4) 1250 session1"

section \<open>Properties of the arithmetic\<close>

lemma round_double_exact:
  assumes "\<bar>x\<bar> \<le> 2 ^ 53"
  shows "round_double x = x"
proof (cases "\<bar>x\<bar> < 2 ^ 53")
  case True
  then have "bitlen \<bar>x\<bar> \<le> 53"
    by (simp add: bitlen_le_iff_power)
  then have "nat (bitlen \<bar>x\<bar> - 53) = 0"
    by simp
  then show ?thesis
    by (simp add: round_double_def Let_def mult_sgn_abs)
next
  case False
  with assms have m: "\<bar>x\<bar> = 2 ^ 53"
    by simp
  have "bitlen 1 = 1"
    by (simp add: bitlen_alt_def)
  then have "nat (bitlen \<bar>x\<bar> - 53) = 1"
    using bitlen_pow2 [of 1 53] by (simp add: m)
  then have "round_double x = sgn x * \<bar>x\<bar>"
    by (simp add: round_double_def Let_def m)
  then show ?thesis
    by (simp add: mult_sgn_abs)
qed

lemma js_add_exact: "\<bar>a + b\<bar> \<le> 2 ^ 53 \<Longrightarrow> js_add a b = a + b"
  by (simp add: js_add_def round_double_exact)


lemma js_add_small [simp]: "js_add 1 1 = 2" "js_add 2 1 = 3"
  by (simp_all add: js_add_exact)

text \<open>At \<open>2^53\<close> an increment is lost: \<open>2^53 + 1\<close> is not a double and rounds back.\<close>

lemma js_add_loses_increment: "js_add (2 ^ 53) 1 = 2 ^ 53"
proof -
  have "bitlen (2 ^ 53 + 1) = 54"
    by (simp add: compute_bitlen)
  then show ?thesis
    by (simp add: js_add_def round_double_def Let_def)
qed

section \<open>Properties of the library store\<close>

lemma incrementPlayCount_present:
  "songs_store db i = Some s \<Longrightarrow>
   incrementPlayCount i db =
     db\<lparr>songs_store := (songs_store db)(song_id s \<mapsto> s\<lparr>playCount := js_add (playCount s) 1\<rparr>),
        db_events := db_events db @ [TxBegin, TxGet i, TxPut (song_id s), TxDone]\<rparr>"
  by (simp add: incrementPlayCount_def transaction_def tx_get_def tx_put_def tx_done_def)

lemma incrementPlayCount_absent:
  "songs_store db i = None \<Longrightarrow>
   incrementPlayCount i db = db\<lparr>db_events := db_events db @ [TxBegin, TxGet i, TxDone]\<rparr>"
  by (simp add: incrementPlayCount_def transaction_def tx_get_def tx_done_def)

lemma incrementPlayCount_funpow:
  "songs_store db i = Some s \<Longrightarrow> song_id s = i \<Longrightarrow> 0 \<le> playCount s \<Longrightarrow>
   playCount s + int N \<le> 2 ^ 53 \<Longrightarrow>
   songs_store ((incrementPlayCount i ^^ N) db) i = Some (s\<lparr>playCount := playCount s + int N\<rparr>)"
proof (induction N)
  case 0
  then show ?case by simp
next
  case (Suc N)
  let ?db = "(incrementPlayCount i ^^ N) db"
  let ?s = "s\<lparr>playCount := playCount s + int N\<rparr>"
  have stored: "songs_store ?db i = Some ?s"
    using Suc by simp
  have key: "song_id ?s = i"
    using Suc.prems by simp
  have "\<bar>playCount ?s + 1\<bar> \<le> 2 ^ 53"
    using Suc.prems by simp
  then have exact: "js_add (playCount ?s) 1 = playCount ?s + 1"
    by (rule js_add_exact)
  have "songs_store (incrementPlayCount i ?db) i = Some (?s\<lparr>playCount := playCount ?s + 1\<rparr>)"
    using incrementPlayCount_present [OF stored] key exact by simp
  then show ?case
    by (simp add: add.assoc)
qed

lemma keyed_incrementPlayCount: "keyed db \<Longrightarrow> keyed (incrementPlayCount i db)"
proof (cases "songs_store db i")
  case None
  then show "keyed db \<Longrightarrow> keyed (incrementPlayCount i db)"
    by (simp add: incrementPlayCount_absent keyed_def)
next
  case (Some s)
  then show "keyed db \<Longrightarrow> keyed (incrementPlayCount i db)"
    by (simp add: incrementPlayCount_present keyed_def)
qed

text \<open>
  C6, as stated, fails where the play count leaves the whole numbers that a JavaScript
  number holds exactly: for a record stored with play count \<open>2^53\<close> a call of
  \<open>incrementPlayCount\<close> stores \<open>2^53\<close> again.
\<close>

theorem incrementPlayCount_lost_at_2_53:
  "map_option playCount (songs_store db_big ''a.mp3-1'') = Some (2 ^ 53)
   \<and> map_option playCount (songs_store (incrementPlayCount ''a.mp3-1'' db_big) ''a.mp3-1'')
       = Some (2 ^ 53)"
proof -
  have s: "songs_store db_big ''a.mp3-1'' = Some (songA\<lparr>playCount := 2 ^ 53\<rparr>)"
    by (simp add: db_big_def)
  have "song_id songA = ''a.mp3-1''"
    by (simp add: songA_def)
  moreover have "js_add 9007199254740992 1 = 9007199254740992"
    using js_add_loses_increment by simp
  ultimately show ?thesis
    using incrementPlayCount_present [OF s] by (simp add: s)
qed

text \<open>
  C6, amended. For an identity stored with a play count \<open>p\<close> that is not negative, \<open>N\<close>
  calls of \<open>incrementPlayCount\<close>, one after the other, with \<open>p + N \<le> 2^53\<close>, leave the
  record stored with play count \<open>p + N\<close> and otherwise as it was; and each call is one
  transaction whose log is: begin, the read of the record, the write of the record, done.
\<close>

theorem incrementPlayCount_sequential:
  assumes "songs_store db i = Some s" and "song_id s = i"
    and "0 \<le> playCount s" and "playCount s + int N \<le> 2 ^ 53"
  shows "songs_store ((incrementPlayCount i ^^ N) db) i
           = Some (s\<lparr>playCount := playCount s + int N\<rparr>)
         \<and> db_events (incrementPlayCount i db)
           = db_events db @ [TxBegin, TxGet i, TxPut i, TxDone]"
  using assms(1,2) incrementPlayCount_funpow [OF assms] incrementPlayCount_present [OF assms(1)]
  by simp

theorem incrementPlayCount_sequential_witness:
  "songs_store db0 ''a.mp3-1'' = Some songA \<and> song_id songA = ''a.mp3-1''
   \<and> 0 \<le> playCount songA \<and> playCount songA + int 3 \<le> 2 ^ 53
   \<and> songs_store ((incrementPlayCount ''a.mp3-1'' ^^ 3) db0) ''a.mp3-1''
       = Some (songA\<lparr>playCount := 4\<rparr>)
   \<and> db_events (incrementPlayCount ''a.mp3-1'' db0)
       = [TxBegin, TxGet ''a.mp3-1'', TxPut ''a.mp3-1'', TxDone]"
proof -
  have h1: "songs_store db0 ''a.mp3-1'' = Some songA"
    by (simp add: db0_def)
  have h2: "song_id songA = ''a.mp3-1''"
    by (simp add: songA_def)
  have h3: "0 \<le> playCount songA"
    by (simp add: songA_def)
  have h4: "playCount songA + int 3 \<le> 2 ^ 53"
    by (simp add: songA_def)
  note t = incrementPlayCount_sequential [OF h1 h2 h3 h4]
  have c1: "songs_store ((incrementPlayCount ''a.mp3-1'' ^^ 3) db0) ''a.mp3-1''
              = Some (songA\<lparr>playCount := 4\<rparr>)"
    using t by (simp add: songA_def)
  have c2: "db_events (incrementPlayCount ''a.mp3-1'' db0)
              = [TxBegin, TxGet ''a.mp3-1'', TxPut ''a.mp3-1'', TxDone]"
    using t by (simp add: db0_def)
  show ?thesis
    using h1 h2 h3 h4 c1 c2 by blast
qed

text \<open>
  C10. For an identity that is not in the songs store, \<open>incrementPlayCount\<close> runs to the
  end of its transaction (begin, the read, done: the guard skips the write, nothing is
  raised) and leaves the store as it was: no record is created, none is changed.
\<close>

theorem incrementPlayCount_unknown_id:
  assumes "songs_store db i = None"
  shows "songs_store (incrementPlayCount i db) = songs_store db
         \<and> db_events (incrementPlayCount i db) = db_events db @ [TxBegin, TxGet i, TxDone]"
  using incrementPlayCount_absent [OF assms] by simp

theorem incrementPlayCount_unknown_id_witness:
  "songs_store db0 ''zz.mp3-9'' = None
   \<and> songs_store (incrementPlayCount ''zz.mp3-9'' db0) = songs_store db0
   \<and> db_events (incrementPlayCount ''zz.mp3-9'' db0) = [TxBegin, TxGet ''zz.mp3-9'', TxDone]"
proof -
  have h: "songs_store db0 ''zz.mp3-9'' = None"
    by (simp add: db0_def)
  show ?thesis
    using h incrementPlayCount_unknown_id [OF h] by (simp add: db0_def)
qed

subsection \<open>addSongs\<close>

lemma foldl_tx_put_store:
  "songs_store (foldl (\<lambda>tx s. tx_put s tx) tx batch)
     = foldl (\<lambda>m s. m(song_id s \<mapsto> s)) (songs_store tx) batch"
  by (induction batch arbitrary: tx) (simp_all add: tx_put_def)

lemma foldl_upd_map_add:
  "foldl (\<lambda>m s. m(song_id s \<mapsto> s)) m batch
     = m ++ map_of (rev (map (\<lambda>s. (song_id s, s)) batch))"
  by (induction batch rule: rev_induct) (auto simp: map_add_def fun_eq_iff)

lemma addSongs_store:
  "songs_store (addSongs batch db)
     = songs_store db ++ map_of (rev (map (\<lambda>s. (song_id s, s)) batch))"
  by (simp add: addSongs_def tx_done_def transaction_def foldl_tx_put_store foldl_upd_map_add)


lemma keyed_addSongs: "keyed db \<Longrightarrow> keyed (addSongs batch db)"
  unfolding keyed_def addSongs_store
  by (auto simp: map_add_Some_iff dest!: map_of_SomeD)




section \<open>Properties of the playback controller\<close>

lemma playNextSong_cases:
  assumes "playQueue st \<noteq> []"
  shows "playNextSong st =
     (if repeatMode st = RepeatOne
      then (case audioRef st of
              Some a \<Rightarrow> st\<lparr>audioRef := Some (a\<lparr>audio_currentTime := 0, audio_paused := False\<rparr>)\<rparr>
            | None \<Rightarrow> st)
      else if currentSongIndex st + 1 < int (length (playQueue st))
      then st\<lparr>currentSongIndex := currentSongIndex st + 1\<rparr>
      else if repeatMode st = RepeatAll then st\<lparr>currentSongIndex := 0\<rparr>
      else st\<lparr>isPlaying := False\<rparr>)"
  using assms by (simp add: playNextSong_def Let_def)

text \<open>
  C4. \<open>Next\<close> in a loaded state. With repeat \<open>one\<close> the pointer, the queue and the
  playing flag stay and the audio element is set to position 0 and played. Otherwise the
  pointer advances by one where the next index is inside the queue; past the end it wraps
  to 0 with repeat \<open>all\<close>, and with repeat \<open>none\<close> only \<open>isPlaying\<close> changes, to false:
  the pointer stays at the last index of the queue.
\<close>

theorem playNextSong_transition:
  assumes "loaded st"
  shows "(repeatMode st = RepeatOne \<longrightarrow>
            currentSongIndex (playNextSong st) = currentSongIndex st
            \<and> playQueue (playNextSong st) = playQueue st
            \<and> isPlaying (playNextSong st) = isPlaying st
            \<and> map_option audio_currentTime (audioRef (playNextSong st)) = Some 0
            \<and> map_option audio_paused (audioRef (playNextSong st)) = Some False)
       \<and> (repeatMode st \<noteq> RepeatOne \<and> currentSongIndex st + 1 < int (length (playQueue st)) \<longrightarrow>
            playNextSong st = st\<lparr>currentSongIndex := currentSongIndex st + 1\<rparr>)
       \<and> (repeatMode st = RepeatAll \<and> currentSongIndex st + 1 \<ge> int (length (playQueue st)) \<longrightarrow>
            playNextSong st = st\<lparr>currentSongIndex := 0\<rparr>)
       \<and> (repeatMode st = RepeatNone \<and> currentSongIndex st + 1 \<ge> int (length (playQueue st)) \<longrightarrow>
            playNextSong st = st\<lparr>isPlaying := False\<rparr>
            \<and> currentSongIndex (playNextSong st) = int (length (playQueue st)) - 1)"
proof -
  from assms have q: "playQueue st \<noteq> []" and i: "currentSongIndex st < int (length (playQueue st))"
    and a: "audioRef st \<noteq> None"
    by (simp_all add: loaded_def)
  from a obtain el where el: "audioRef st = Some el"
    by auto
  show ?thesis
    using i el by (simp add: playNextSong_cases [OF q])
qed

theorem playNextSong_transition_witness:
  "loaded st0 \<and> repeatMode st0 = RepeatNone
   \<and> currentSongIndex st0 + 1 \<ge> int (length (playQueue st0))
   \<and> isPlaying (playNextSong st0) = False \<and> currentSongIndex (playNextSong st0) = 2
   \<and> loaded (st0\<lparr>repeatMode := RepeatAll\<rparr>)
   \<and> currentSongIndex (playNextSong (st0\<lparr>repeatMode := RepeatAll\<rparr>)) = 0
   \<and> isPlaying (playNextSong (st0\<lparr>repeatMode := RepeatAll\<rparr>)) = True
   \<and> loaded (st0\<lparr>currentSongIndex := 1\<rparr>)
   \<and> currentSongIndex (playNextSong (st0\<lparr>currentSongIndex := 1\<rparr>)) = 2
   \<and> loaded (st0\<lparr>repeatMode := RepeatOne\<rparr>)
   \<and> currentSongIndex (playNextSong (st0\<lparr>repeatMode := RepeatOne\<rparr>)) = 2
   \<and> map_option audio_currentTime (audioRef (playNextSong (st0\<lparr>repeatMode := RepeatOne\<rparr>))) = Some 0"
proof -
  have l: "loaded st0" "loaded (st0\<lparr>repeatMode := RepeatAll\<rparr>)"
    "loaded (st0\<lparr>currentSongIndex := 1\<rparr>)" "loaded (st0\<lparr>repeatMode := RepeatOne\<rparr>)"
    by (simp_all add: loaded_def st0_def)
  have m: "repeatMode st0 = RepeatNone" "currentSongIndex st0 = 2" "length (playQueue st0) = 3"
    "isPlaying st0"
    by (simp_all add: st0_def)
  show ?thesis
    using l m playNextSong_transition [OF l(1)] playNextSong_transition [OF l(2)]
      playNextSong_transition [OF l(3)] playNextSong_transition [OF l(4)]
    by simp
qed

text \<open>
  C5. \<open>Prev\<close> in a loaded state. When the position of the audio element is past 3
  seconds, the position is set to 0 and the pointer stays. Otherwise the pointer goes
  back by one where that index is inside the queue; before the start it wraps to the last
  index with repeat \<open>all\<close>, and otherwise nothing changes.
\<close>

theorem playPrevSong_transition:
  assumes "loaded st" and "audioRef st = Some a"
  shows "(audio_currentTime a > 3 \<longrightarrow>
            playPrevSong st = st\<lparr>audioRef := Some (a\<lparr>audio_currentTime := 0\<rparr>)\<rparr>
            \<and> currentSongIndex (playPrevSong st) = currentSongIndex st)
       \<and> (audio_currentTime a \<le> 3 \<and> currentSongIndex st - 1 \<ge> 0 \<longrightarrow>
            playPrevSong st = st\<lparr>currentSongIndex := currentSongIndex st - 1\<rparr>)
       \<and> (audio_currentTime a \<le> 3 \<and> currentSongIndex st - 1 < 0 \<and> repeatMode st = RepeatAll \<longrightarrow>
            playPrevSong st = st\<lparr>currentSongIndex := int (length (playQueue st)) - 1\<rparr>)
       \<and> (audio_currentTime a \<le> 3 \<and> currentSongIndex st - 1 < 0 \<and> repeatMode st \<noteq> RepeatAll \<longrightarrow>
            playPrevSong st = st)"
proof -
  from assms(1) have q: "length (playQueue st) \<noteq> 0"
    by (simp add: loaded_def)
  show ?thesis
    using q assms(2) by (simp add: playPrevSong_def playPrevIndex_def Let_def)
qed

theorem playPrevSong_transition_witness:
  "loaded st_b5 \<and> audioRef st_b5 = Some \<lparr>audio_currentTime = 5, audio_paused = False\<rparr>
   \<and> currentSongIndex (playPrevSong st_b5) = 1
   \<and> audioRef (playPrevSong st_b5) = Some \<lparr>audio_currentTime = 0, audio_paused = False\<rparr>
   \<and> loaded st_b1 \<and> audioRef st_b1 = Some \<lparr>audio_currentTime = 1, audio_paused = False\<rparr>
   \<and> currentSongIndex (playPrevSong st_b1) = 0
   \<and> loaded st_a1 \<and> audioRef st_a1 = Some \<lparr>audio_currentTime = 1, audio_paused = False\<rparr>
   \<and> playPrevSong st_a1 = st_a1
   \<and> loaded (st_a1\<lparr>repeatMode := RepeatAll\<rparr>)
   \<and> audioRef (st_a1\<lparr>repeatMode := RepeatAll\<rparr>) = Some \<lparr>audio_currentTime = 1, audio_paused = False\<rparr>
   \<and> currentSongIndex (playPrevSong (st_a1\<lparr>repeatMode := RepeatAll\<rparr>)) = 2"
proof -
  have l: "loaded st_b5" "loaded st_b1" "loaded st_a1" "loaded (st_a1\<lparr>repeatMode := RepeatAll\<rparr>)"
    by (simp_all add: loaded_def st_b5_def st_b1_def st_a1_def st0_def)
  have a: "audioRef st_b5 = Some \<lparr>audio_currentTime = 5, audio_paused = False\<rparr>"
    "audioRef st_b1 = Some \<lparr>audio_currentTime = 1, audio_paused = False\<rparr>"
    "audioRef st_a1 = Some \<lparr>audio_currentTime = 1, audio_paused = False\<rparr>"
    "audioRef (st_a1\<lparr>repeatMode := RepeatAll\<rparr>) = Some \<lparr>audio_currentTime = 1, audio_paused = False\<rparr>"
    by (simp_all add: st_b5_def st_b1_def st_a1_def)
  have m: "currentSongIndex st_b5 = 1" "currentSongIndex st_b1 = 1" "currentSongIndex st_a1 = 0"
    "repeatMode st_a1 = RepeatNone" "length (playQueue st_a1) = 3"
    by (simp_all add: st_b5_def st_b1_def st_a1_def st0_def)
  show ?thesis
    using l a m playPrevSong_transition [OF l(1) a(1)] playPrevSong_transition [OF l(2) a(2)]
      playPrevSong_transition [OF l(3) a(3)] playPrevSong_transition [OF l(4) a(4)]
    by simp
qed

text \<open>
  C9, as stated, fails: \<open>handleSeek\<close> stores the requested time as it is. With a duration
  of 220 seconds a request of 500 leaves the stored position at 500, and a request of
  \<open>-7\<close> leaves it at \<open>-7\<close>.
\<close>

theorem handleSeek_unclamped:
  "currentTime (handleSeek 500 st0) = 500 \<and> duration (handleSeek 500 st0) = 220
   \<and> currentTime (handleSeek (- 7) st0) = - 7"
  by (simp add: handleSeek_def st0_def)

text \<open>
  C9, amended. In a loaded state \<open>handleSeek t\<close> stores \<open>t\<close> itself as the position, with
  no clamping, assigns \<open>t\<close> to the audio element, and leaves the playing flag, the queue,
  the pointer and the duration as they were.
\<close>

theorem handleSeek_stores_time:
  assumes "loaded st"
  shows "currentTime (handleSeek t st) = t
         \<and> map_option audio_currentTime (audioRef (handleSeek t st)) = Some t
         \<and> isPlaying (handleSeek t st) = isPlaying st
         \<and> playQueue (handleSeek t st) = playQueue st
         \<and> currentSongIndex (handleSeek t st) = currentSongIndex st
         \<and> duration (handleSeek t st) = duration st"
proof -
  from assms obtain a where "audioRef st = Some a"
    by (auto simp: loaded_def)
  then show ?thesis
    by (simp add: handleSeek_def)
qed

theorem handleSeek_stores_time_witness:
  "loaded st0 \<and> currentTime (handleSeek 42 st0) = 42
   \<and> map_option audio_currentTime (audioRef (handleSeek 42 st0)) = Some 42
   \<and> isPlaying (handleSeek 42 st0) = True"
proof -
  have l: "loaded st0"
    by (simp add: loaded_def st0_def)
  have "isPlaying st0"
    by (simp add: st0_def)
  then show ?thesis
    using l handleSeek_stores_time [OF l, of 42] by simp
qed

section \<open>Properties of the queue builder\<close>

lemma length_swap [simp]: "length (swap i j queue) = length queue"
  by (simp add: swap_def Let_def)









subsection \<open>Weighted mode\<close>







subsection \<open>Runs of a plan\<close>














section \<open>Properties of the play-count tracker\<close>

lemma queue_at_in_range: "queue_at queue i = Some s \<Longrightarrow> i \<noteq> - 1"
  by (auto simp: queue_at_def split: if_splits)

text \<open>
  The effect case by case, with a current song. While playing, at 5 seconds or more, and
  with the marker of this run not in the set: one call of \<open>incrementPlayCount\<close> for the
  current identity, and the marker is added. While playing below 5 seconds, or with the
  marker of this run in the set: nothing. While not playing: no call, and the set is
  cleared.
\<close>

lemma playCountEffect_cases:
  assumes "queue_at (playQueue st) (currentSongIndex st) = Some s"
  shows "(isPlaying st \<and> currentTime st \<ge> 5 \<and> playbackIdAt s now \<notin> playCountTracked st \<longrightarrow>
            database (playCountEffect now st) = incrementPlayCount (song_id s) (database st)
            \<and> playCountTracked (playCountEffect now st)
                = insert (playbackIdAt s now) (playCountTracked st))
       \<and> (isPlaying st \<and> (currentTime st < 5 \<or> playbackIdAt s now \<in> playCountTracked st) \<longrightarrow>
            playCountEffect now st = st)
       \<and> (\<not> isPlaying st \<longrightarrow> playCountEffect now st = st\<lparr>playCountTracked := {}\<rparr>)"
  using assms queue_at_in_range [OF assms]
  by (auto simp: playCountEffect_def PLAY_COUNT_THRESHOLD_S_def Let_def)

subsection \<open>The sample runs\<close>

lemma session1_eval:
  "session1 = stA\<lparr>currentTime := 5,
      audioRef := Some \<lparr>audio_currentTime = 5, audio_paused = False\<rparr>,
      playCountTracked := {playbackIdAt songA 1000},
      database := incrementPlayCount ''a.mp3-1'' db0,
      songs := [songA\<lparr>playCount := 2\<rparr>]\<rparr>"
  by (simp add: session1_def timeupdate_def runPlayCountEffect_def playCountEffect_def
      queue_at_def PLAY_COUNT_THRESHOLD_S_def stA_def songA_def)


lemma db1_eval:
  "incrementPlayCount ''a.mp3-1'' db0 =
     \<lparr>songs_store = Map.empty(''a.mp3-1'' \<mapsto> songA\<lparr>playCount := 2\<rparr>),
      db_events = [TxBegin, TxGet ''a.mp3-1'', TxPut ''a.mp3-1'', TxDone]\<rparr>"
  by (simp add: incrementPlayCount_def transaction_def tx_get_def tx_put_def tx_done_def
      db0_def songA_def)

lemma db2_eval:
  "incrementPlayCount ''a.mp3-1'' (incrementPlayCount ''a.mp3-1'' db0) =
     \<lparr>songs_store = Map.empty(''a.mp3-1'' \<mapsto> songA\<lparr>playCount := 3\<rparr>),
      db_events = [TxBegin, TxGet ''a.mp3-1'', TxPut ''a.mp3-1'', TxDone,
                   TxBegin, TxGet ''a.mp3-1'', TxPut ''a.mp3-1'', TxDone]\<rparr>"
  unfolding db1_eval
  by (simp add: incrementPlayCount_def transaction_def tx_get_def tx_put_def tx_done_def
      songA_def)

lemma session2_eval:
  "session2 = session1\<lparr>isPlaying := False,
      audioRef := Some \<lparr>audio_currentTime = 5, audio_paused = True\<rparr>,
      playCountTracked := {}\<rparr>"
  by (simp add: session2_def clickPlayPause_def handlePlayPause_def playPauseEffect_def
      runPlayCountEffect_def
      playCountEffect_def queue_at_def PLAY_COUNT_THRESHOLD_S_def session1_eval stA_def)

lemma session3_eval:
  "session3 = session2\<lparr>currentTime := 0,
      audioRef := Some \<lparr>audio_currentTime = 0, audio_paused = True\<rparr>\<rparr>"
  by (simp add: session3_def timeupdate_def runPlayCountEffect_def playCountEffect_def
      queue_at_def PLAY_COUNT_THRESHOLD_S_def session2_eval session1_eval stA_def)

lemma session4_eval:
  "session4 = session3\<lparr>isPlaying := True,
      audioRef := Some \<lparr>audio_currentTime = 0, audio_paused = False\<rparr>\<rparr>"
  by (simp add: session4_def clickPlayPause_def handlePlayPause_def playPauseEffect_def
      runPlayCountEffect_def
      playCountEffect_def queue_at_def PLAY_COUNT_THRESHOLD_S_def session3_eval session2_eval
      session1_eval stA_def)

lemma session5_eval:
  "session5 = session4\<lparr>currentTime := 5,
      audioRef := Some \<lparr>audio_currentTime = 5, audio_paused = False\<rparr>,
      playCountTracked := {playbackIdAt songA 8000},
      database := incrementPlayCount ''a.mp3-1'' (incrementPlayCount ''a.mp3-1'' db0),
      songs := [songA\<lparr>playCount := 3\<rparr>]\<rparr>"
  by (simp add: session5_def timeupdate_def runPlayCountEffect_def playCountEffect_def
      queue_at_def PLAY_COUNT_THRESHOLD_S_def session4_eval session3_eval session2_eval
      session1_eval stA_def songA_def)

text \<open>
  A pause ends the play-session, as the comment of the source says (\<open>Reset tracking when
  paused\<close>): in the run with a pause the pointer stays on \<open>A\<close>, the first crossing of 5 s
  makes one call, and the crossing after the pause and the resume makes another.
\<close>

lemma pause_resume_counts_again:
  "db_events (database session1) = [TxBegin, TxGet ''a.mp3-1'', TxPut ''a.mp3-1'', TxDone]
   \<and> isPlaying session2 = False \<and> isPlaying session4 = True
   \<and> playQueue session5 = playQueue stA \<and> currentSongIndex session5 = currentSongIndex stA
   \<and> db_events (database session5)
       = [TxBegin, TxGet ''a.mp3-1'', TxPut ''a.mp3-1'', TxDone,
          TxBegin, TxGet ''a.mp3-1'', TxPut ''a.mp3-1'', TxDone]
   \<and> map_option playCount (songs_store (database stA) ''a.mp3-1'') = Some 1
   \<and> map_option playCount (songs_store (database session5) ''a.mp3-1'') = Some 3"
proof -
  have a: "db_events (database session1)
             = [TxBegin, TxGet ''a.mp3-1'', TxPut ''a.mp3-1'', TxDone]"
    by (simp add: session1_eval db1_eval)
  have b: "isPlaying session2 = False" "isPlaying session4 = True"
    "playQueue session5 = playQueue stA" "currentSongIndex session5 = currentSongIndex stA"
    by (simp_all add: session5_eval session4_eval session3_eval session2_eval session1_eval)
  have c: "db_events (database session5)
       = [TxBegin, TxGet ''a.mp3-1'', TxPut ''a.mp3-1'', TxDone,
          TxBegin, TxGet ''a.mp3-1'', TxPut ''a.mp3-1'', TxDone]"
    "map_option playCount (songs_store (database session5) ''a.mp3-1'') = Some 3"
    by (simp_all add: session5_eval db2_eval)
  have d: "map_option playCount (songs_store (database stA) ''a.mp3-1'') = Some 1"
    by (simp add: stA_def db0_def songA_def)
  show ?thesis
    using a b c d by blast
qed

lemma unpaused2_eval:
  "unpaused2 = session1\<lparr>currentTime := 21 / 4,
      audioRef := Some \<lparr>audio_currentTime = 21 / 4, audio_paused = False\<rparr>,
      playCountTracked := {playbackIdAt songA 1250, playbackIdAt songA 1000},
      database := incrementPlayCount ''a.mp3-1'' (incrementPlayCount ''a.mp3-1'' db0),
      songs := [songA\<lparr>playCount := 3\<rparr>]\<rparr>"
proof -
  have "playbackIdAt songA 1250 \<noteq> playbackIdAt songA 1000"
    by (simp add: playbackIdAt_def string_of_nat.simps)
  then show ?thesis
    by (simp add: unpaused2_def timeupdate_def runPlayCountEffect_def playCountEffect_def
        queue_at_def PLAY_COUNT_THRESHOLD_S_def session1_eval stA_def songA_def)
qed

text \<open>
  C1. Evaluation of the tracker on one unpaused session: \<open>A\<close> is playing with no marker
  recorded; the position update at 5 s (clock 1000) makes one call of
  \<open>incrementPlayCount\<close>; the next position update, at 5.25 s (clock 1250), with no pause,
  no stop and no change of the pointer between the two, makes a second call: the marker
  tested by \<open>has\<close> is built from the identity and \<open>Date.now()\<close>, and the marker of the
  second update is not the one recorded by the first. The stored play count goes from 1
  to 3.
\<close>

theorem playCount_twice_in_one_session:
  "isPlaying stA \<and> playCountTracked stA = {}
   \<and> map_option playCount (songs_store (database stA) ''a.mp3-1'') = Some 1
   \<and> db_events (database session1) = [TxBegin, TxGet ''a.mp3-1'', TxPut ''a.mp3-1'', TxDone]
   \<and> playCountTracked session1 = {playbackIdAt songA 1000}
   \<and> isPlaying session1 \<and> isPlaying unpaused2
   \<and> playQueue unpaused2 = playQueue stA \<and> currentSongIndex unpaused2 = currentSongIndex stA
   \<and> playbackIdAt songA 1000 = ''a.mp3-1-1000'' \<and> playbackIdAt songA 1250 = ''a.mp3-1-1250''
   \<and> db_events (database unpaused2)
       = [TxBegin, TxGet ''a.mp3-1'', TxPut ''a.mp3-1'', TxDone,
          TxBegin, TxGet ''a.mp3-1'', TxPut ''a.mp3-1'', TxDone]
   \<and> map_option playCount (songs_store (database unpaused2) ''a.mp3-1'') = Some 3"
proof -
  have a: "isPlaying stA" "playCountTracked stA = {}"
    "map_option playCount (songs_store (database stA) ''a.mp3-1'') = Some 1"
    by (simp_all add: stA_def db0_def songA_def)
  have b: "db_events (database session1)
             = [TxBegin, TxGet ''a.mp3-1'', TxPut ''a.mp3-1'', TxDone]"
    "playCountTracked session1 = {playbackIdAt songA 1000}"
    by (simp_all add: session1_eval db1_eval)
  have c: "isPlaying session1" "isPlaying unpaused2" "playQueue unpaused2 = playQueue stA"
    "currentSongIndex unpaused2 = currentSongIndex stA"
    by (simp_all add: unpaused2_eval session1_eval stA_def)
  have d: "playbackIdAt songA 1000 = ''a.mp3-1-1000''" "playbackIdAt songA 1250 = ''a.mp3-1-1250''"
    by (simp_all add: playbackIdAt_def string_of_nat.simps songA_def)
  have e: "db_events (database unpaused2)
       = [TxBegin, TxGet ''a.mp3-1'', TxPut ''a.mp3-1'', TxDone,
          TxBegin, TxGet ''a.mp3-1'', TxPut ''a.mp3-1'', TxDone]"
    "map_option playCount (songs_store (database unpaused2) ''a.mp3-1'') = Some 3"
    by (simp_all add: unpaused2_eval db2_eval)
  show ?thesis
    using a b c d e by blast
qed

section \<open>Properties of toggleShuffle\<close>

text \<open>
  \<open>playSong\<close> runs after the render that follows a toggle: its \<open>getShuffledQueue\<close> sees
  the mode of the state, and in the random mode the queue is shuffled.
\<close>

lemma playSong_shuffles_under_current_mode:
  "playQueue (playSong srt songA [songA, songB, songC] (st_a1\<lparr>shuffleMode := ShuffleRandom\<rparr>))
     = [songA, songC, songB]"
  by (simp add: playSong_def findIndex_def getShuffledQueue_def st_a1_def st0_def
      halves_def random_def swap_def eval_nat_numeral songA_def songB_def songC_def)

text \<open>
  The parts of \<open>toggleShuffle\<close> that hold whatever mode the queue is rebuilt under: the mode
  advances in the cycle, and the new cursor is found by identity, the index of an entry of
  the new queue with the identity of the current song, or \<open>-1\<close>.
\<close>

lemma findIndexOfCurrent_found:
  "findIndexOfCurrent k cur xs = Inr n \<Longrightarrow>
   n = - 1 \<or> (\<exists>s c. cur = Some c \<and> int k \<le> n \<and> nat (n - int k) < length xs
                  \<and> xs ! nat (n - int k) = Some s \<and> song_id s = song_id c)"
proof (induction xs arbitrary: k)
  case Nil
  then show ?case by simp
next
  case (Cons x xs)
  from Cons.prems obtain s c where x: "x = Some s" and c: "cur = Some c"
    by (auto split: option.splits)
  show ?case
  proof (cases "song_id s = song_id c")
    case True
    with Cons.prems x c have "n = int k"
      by simp
    with True x c show ?thesis
      by simp
  next
    case False
    with Cons.prems x c have "findIndexOfCurrent (Suc k) cur xs = Inr n"
      by simp
    from Cons.IH [OF this] show ?thesis
    proof
      assume "n = - 1"
      then show ?thesis by simp
    next
      assume "\<exists>s c. cur = Some c \<and> int (Suc k) \<le> n \<and> nat (n - int (Suc k)) < length xs
                \<and> xs ! nat (n - int (Suc k)) = Some s \<and> song_id s = song_id c"
      then obtain s' c' where h: "cur = Some c'" "int (Suc k) \<le> n"
        "nat (n - int (Suc k)) < length xs" "xs ! nat (n - int (Suc k)) = Some s'"
        "song_id s' = song_id c'"
        by blast
      have e: "nat (n - int k) = Suc (nat (n - int (Suc k)))"
        using h(2) by linarith
      have "int k \<le> n" "nat (n - int k) < length (x # xs)"
        "(x # xs) ! nat (n - int k) = Some s'"
        using h by (simp_all add: e)
      with h(1) h(5) show ?thesis
        by blast
    qed
  qed
qed

lemma toggleShuffle_relocates_by_identity:
  assumes "toggleShuffle srt st = Inr st'" and "playQueue st \<noteq> []"
  shows "shuffleMode st' = nextShuffleMode (shuffleMode st)
         \<and> (currentSongIndex st' = - 1
            \<or> (\<exists>s c. queue_at (playQueue st) (currentSongIndex st) = Some c
                      \<and> queue_at (playQueue st') (currentSongIndex st') = Some s
                      \<and> song_id s = song_id c))"
proof (cases "nextShuffleMode (shuffleMode st) = ShuffleNone")
  case False
  obtain newQueue r1 where g:
    "getShuffledQueue srt (shuffleMode st) (playQueue st) (random_source st) = (newQueue, r1)"
    by (cases "getShuffledQueue srt (shuffleMode st) (playQueue st) (random_source st)")
  with assms False obtain n where
    f: "findIndexOfCurrent 0 (queue_at (playQueue st) (currentSongIndex st)) (map Some newQueue) = Inr n"
    and st': "st' = st\<lparr>shuffleMode := nextShuffleMode (shuffleMode st), playQueue := newQueue,
                        currentSongIndex := n, random_source := r1\<rparr>"
    by (auto simp: toggleShuffle_def Let_def split: sum.splits)
  from findIndexOfCurrent_found [OF f] show ?thesis
    by (auto simp: st' queue_at_def split: if_splits)
next
  case True
  with assms obtain n where
    f: "findIndexOfCurrent 0 (queue_at (playQueue st) (currentSongIndex st)) (originalList st) = Inr n"
    and d: "list_all (\<lambda>x. x \<noteq> None) (originalList st)"
    and st': "st' = st\<lparr>shuffleMode := ShuffleNone, playQueue := map the (originalList st),
                        currentSongIndex := n\<rparr>"
    by (auto simp: toggleShuffle_def Let_def split: sum.splits if_splits)
  from findIndexOfCurrent_found [OF f] True show ?thesis
    by (auto simp: st' queue_at_def split: if_splits)
qed

text \<open>
  C3. Evaluation of \<open>toggleShuffle\<close> with the queue \<open>[A, B, C]\<close>, the cursor on \<open>A\<close> and the
  draws 0.5, 0.5, for every engine sort. From mode \<open>none\<close> the mode becomes \<open>random\<close> and
  the queue stays \<open>[A, B, C]\<close> with no draw used, where the random mode builds
  \<open>[A, C, B]\<close> from these draws. From mode \<open>random\<close> the mode becomes \<open>weighted\<close> and the
  queue is the Fisher-Yates result \<open>[A, C, B]\<close>: the weighted comparator never runs. The
  queue is rebuilt under the mode before the toggle.
\<close>

theorem toggleShuffle_uses_previous_mode:
  "shuffleMode st_a1 = ShuffleNone \<and> playQueue st_a1 = [songA, songB, songC]
   \<and> toggleShuffle srt st_a1 = Inr (st_a1\<lparr>shuffleMode := ShuffleRandom\<rparr>)
   \<and> fst (getShuffledQueue srt ShuffleRandom (playQueue st_a1) (random_source st_a1))
       = [songA, songC, songB]
   \<and> toggleShuffle srt (st_a1\<lparr>shuffleMode := ShuffleRandom\<rparr>)
       = Inr (st_a1\<lparr>shuffleMode := ShuffleWeighted, playQueue := [songA, songC, songB]\<rparr>)"
  by (simp add: toggleShuffle_def getShuffledQueue_def queue_at_def st_a1_def st0_def
      halves_def random_def swap_def eval_nat_numeral songA_def songB_def songC_def)

end
